theory Spec2Isabelle
  imports Main "HOL-Library.Sublist"
begin

section \<open>JavaScript values\<close>

text \<open>
  The servers hand the templates whatever \<open>JSON.parse\<close> returned, so the Data Bag is an
  untyped JavaScript value. \<open>JUndefined\<close> is what reading an absent property gives; JSON
  itself cannot deliver it. Numbers are held as integers: the program only tests a number
  for truthiness and prints it. An object is the list of its own properties, read with
  \<open>map_of\<close>. Strings are byte strings (UTF-8).
\<close>

datatype jsval =
    JUndefined
  | JNull
  | JBool bool
  | JNum int
  | JStr string
  | JArr "jsval list"
  | JObj "(string \<times> jsval) list"

text \<open>
  A \<open>TypeError\<close> is what the engine throws on \<open>null.x\<close> or on calling something that
  is not a function; \<open>Error msg\<close> is \<open>new Error(msg)\<close>.
\<close>

datatype error = TypeError | Error string

definition then_do :: "error + 'a \<Rightarrow> ('a \<Rightarrow> error + 'b) \<Rightarrow> error + 'b" where
  "then_do r f = (case r of Inl e \<Rightarrow> Inl e | Inr x \<Rightarrow> f x)"

text \<open>
  \<open>v[k]\<close> for a property name \<open>k\<close> that no prototype defines (every name the templates
  and the handlers read from request data is such a name): an own property of an object,
  \<open>undefined\<close> on every other value that can be read from.
\<close>

fun get_prop :: "jsval \<Rightarrow> string \<Rightarrow> jsval" where
  "get_prop (JObj kvs) k = (case map_of kvs k of Some v \<Rightarrow> v | None \<Rightarrow> JUndefined)"
| "get_prop _ k = JUndefined"

definition nullish :: "jsval \<Rightarrow> bool" where
  "nullish v = (v = JUndefined \<or> v = JNull)"

text \<open>\<open>v.k\<close>: reading a property of \<open>null\<close> or \<open>undefined\<close> throws.\<close>

definition member :: "jsval \<Rightarrow> string \<Rightarrow> error + jsval" where
  "member v k = (if nullish v then Inl TypeError else Inr (get_prop v k))"

fun truthy :: "jsval \<Rightarrow> bool" where
  "truthy JUndefined = False"
| "truthy JNull = False"
| "truthy (JBool b) = b"
| "truthy (JNum n) = (n \<noteq> 0)"
| "truthy (JStr s) = (s \<noteq> [])"
| "truthy (JArr xs) = True"
| "truthy (JObj kvs) = True"

text \<open>\<open>a || b\<close>\<close>

definition js_or :: "jsval \<Rightarrow> jsval \<Rightarrow> jsval" where
  "js_or a b = (if truthy a then a else b)"

section \<open>What the engine decides\<close>

text \<open>
  Three things are decided by the JavaScript engine and the render package and not by this
  repository; they are parameters of the model. The first two are what calling a property
  inherited from \<open>Object.prototype\<close> in the place of a template, and rendering what it
  returns, gives: on the render route, and on the preview route, where the sample data of
  such a name is read through the prototype chain too and is that same property. The third
  is the lower-case form of a string that has characters outside ASCII.
\<close>

datatype foreign_call = RenderCall string jsval bool | PreviewCall string

record foreign =
  inherited_call :: "foreign_call \<Rightarrow> error + string"
  lower_case :: "string \<Rightarrow> string"

text \<open>
  \<open>s.toLowerCase()\<close>: only a string has the method. In a string of ASCII characters the
  letters \<open>A\<close> to \<open>Z\<close> are lowered and nothing else changes; for any other string the result
  is the engine's.
\<close>

definition ascii :: "char \<Rightarrow> bool" where
  "ascii c = ((of_char c :: nat) < 128)"

definition lower_char :: "char \<Rightarrow> char" where
  "lower_char c =
     (let n = (of_char c :: nat) in if 65 \<le> n \<and> n \<le> 90 then char_of (n + 32) else c)"

definition toLowerCase :: "foreign \<Rightarrow> jsval \<Rightarrow> error + jsval" where
  "toLowerCase fo v =
     (case v of
        JStr s \<Rightarrow> Inr (JStr (if list_all ascii s then map lower_char s else lower_case fo s))
      | _ \<Rightarrow> Inl TypeError)"

section \<open>Parameters and their defaults\<close>

text \<open>
  Each template is a function of one props object whose parameter list is a destructuring
  pattern with defaults, \<open>({username = 'User', ...})\<close>. A default is taken exactly when the
  property reads as \<open>undefined\<close>; destructuring \<open>null\<close> or \<open>undefined\<close> throws.
\<close>

type_synonym params = "(string \<times> jsval) list"

definition default_param :: "jsval \<Rightarrow> jsval \<Rightarrow> jsval" where
  "default_param v d = (if v = JUndefined then d else v)"

definition destructure :: "params \<Rightarrow> jsval \<Rightarrow> error + params" where
  "destructure decl props =
     (if nullish props then Inl TypeError
      else Inr (map (\<lambda>(k, d). (k, default_param (get_prop props k) d)) decl))"

definition param :: "params \<Rightarrow> string \<Rightarrow> jsval" where
  "param m k = (case map_of m k of Some v \<Rightarrow> v | None \<Rightarrow> JUndefined)"

section \<open>Document tree\<close>

text \<open>
  A JSX element is a component, the name of the style constant it is given (empty when it
  has none), its \<open>href\<close> (\<open>JUndefined\<close> when it has none) and its children; a child that is
  not an element is a value: literal text or the value of an expression in braces.
\<close>

datatype kind = Html | Head | Preview | Body | Container | Section | Text | Button | Hr | Link

datatype node =
    Element kind string jsval "node list"
  | Value jsval

abbreviation Lit :: "string \<Rightarrow> node" where
  "Lit s \<equiv> Value (JStr s)"

abbreviation El :: "kind \<Rightarrow> string \<Rightarrow> node list \<Rightarrow> node" where
  "El k st cs \<equiv> Element k st JUndefined cs"

text \<open>\<open>{c && <X/>}\<close>: the element when \<open>c\<close> is truthy, the value \<open>c\<close> itself otherwise.\<close>

definition js_and_node :: "jsval \<Rightarrow> node \<Rightarrow> node" where
  "js_and_node c n = (if truthy c then n else Value c)"

section \<open>Welcome\<close>

definition WelcomeEmail_params :: params where
  "WelcomeEmail_params =
     [(''username'', JStr ''User''), (''loginUrl'', JStr ''#''), (''companyName'', JStr ''Unipack'')]"

definition copyright :: string where
  "copyright = [CHR 0xC2, CHR 0xA9] @ '' 2024 ''"

definition WelcomeEmail_tree :: "jsval \<Rightarrow> jsval \<Rightarrow> jsval \<Rightarrow> node" where
  "WelcomeEmail_tree username loginUrl companyName =
     El Html [] [
       El Head [] [],
       El Preview [] [Lit ''Welcome to '', Value companyName,
                      Lit '' - Get started with your new account''],
       El Body ''main'' [
         El Container ''container'' [
           El Section ''header'' [
             El Text ''logo'' [Value companyName]],
           El Section ''content'' [
             El Text ''heading'' [Lit ''Welcome, '', Value username, Lit ''!''],
             El Text ''text'' [
               Lit ''We're thrilled to have you join the '', Value companyName,
               Lit '' community. Your account has been successfully created, and you're ready to get started.''],
             El Text ''text'' [
               Lit ''Click the button below to access your dashboard and begin exploring all the features we have to offer:''],
             El Section ''buttonContainer'' [
               Element Button ''button'' loginUrl [Lit ''Get Started'']],
             El Hr ''hr'' [],
             El Text ''text'' [
               Lit ''If you have any questions or need assistance, our support team is here to help. Feel free to reply to this email or contact us through our help center.'']],
           El Section ''footer'' [
             El Text ''footerText'' [
               Lit copyright, Value companyName, Lit ''. All rights reserved.''],
             El Text ''footerText'' [
               Lit ''This email was sent to you because you created an account with '',
               Value companyName, Lit ''.'']]]]]"

definition WelcomeEmail :: "jsval \<Rightarrow> error + node" where
  "WelcomeEmail props =
     then_do (destructure WelcomeEmail_params props) (\<lambda>m.
       Inr (WelcomeEmail_tree (param m ''username'') (param m ''loginUrl'')
              (param m ''companyName'')))"

section \<open>Password reset\<close>

definition PasswordResetEmail_params :: params where
  "PasswordResetEmail_params =
     [(''username'', JStr ''User''), (''resetUrl'', JStr ''#''),
      (''companyName'', JStr ''Unipack''), (''expiryTime'', JStr ''24 hours'')]"

definition warning_sign :: string where
  "warning_sign = [CHR 0xE2, CHR 0x9A, CHR 0xA0, CHR 0xEF, CHR 0xB8, CHR 0x8F]"

definition PasswordResetEmail_tree :: "jsval \<Rightarrow> jsval \<Rightarrow> jsval \<Rightarrow> jsval \<Rightarrow> jsval \<Rightarrow> node" where
  "PasswordResetEmail_tree username resetUrl companyName expiryTime companyLower =
     El Html [] [
       El Head [] [],
       El Preview [] [Lit ''Reset your '', Value companyName, Lit '' password''],
       El Body ''main'' [
         El Container ''container'' [
           El Section ''header'' [
             El Text ''logo'' [Value companyName]],
           El Section ''content'' [
             El Text ''heading'' [Lit ''Password Reset Request''],
             El Text ''text'' [Lit ''Hi '', Value username, Lit '',''],
             El Text ''text'' [
               Lit ''We received a request to reset the password for your '', Value companyName,
               Lit '' account. If you made this request, click the button below to create a new password:''],
             El Section ''buttonContainer'' [
               Element Button ''button'' resetUrl [Lit ''Reset Password'']],
             El Text ''text'' [
               Lit ''This password reset link will expire in '', Value expiryTime,
               Lit ''. If you need to request another reset link, you can do so from our login page.''],
             El Hr ''hr'' [],
             El Section ''warningSection'' [
               El Text ''warningTitle'' [Lit (warning_sign @ '' Security Notice'')],
               El Text ''warningText'' [
                 Lit ''If you didn't request this password reset, please ignore this email. Your password will remain unchanged, and your account is secure.''],
               El Text ''warningText'' [
                 Lit ''For your security, never share this reset link with anyone. Our support team will never ask you for your password or login credentials.'']],
             El Hr ''hr'' [],
             El Text ''text'' [
               Lit ''If you're having trouble with the button above, copy and paste the following URL into your browser:''],
             El Text ''urlText'' [Value resetUrl]],
           El Section ''footer'' [
             El Text ''footerText'' [
               Lit ''Need help? Contact our support team at support@'', Value companyLower,
               Lit ''.com''],
             El Text ''footerText'' [
               Lit copyright, Value companyName, Lit ''. All rights reserved.'']]]]]"

definition PasswordResetEmail :: "foreign \<Rightarrow> jsval \<Rightarrow> error + node" where
  "PasswordResetEmail fo props =
     then_do (destructure PasswordResetEmail_params props) (\<lambda>m.
     then_do (toLowerCase fo (param m ''companyName'')) (\<lambda>companyLower.
       Inr (PasswordResetEmail_tree (param m ''username'') (param m ''resetUrl'')
              (param m ''companyName'') (param m ''expiryTime'') companyLower)))"

section \<open>Newsletter\<close>

definition default_articles :: jsval where
  "default_articles =
     JArr [JObj [
       (''title'', JStr ''Sample Article Title''),
       (''excerpt'', JStr ''This is a sample article excerpt that gives readers a preview of the content...''),
       (''url'', JStr ''#''),
       (''readTime'', JStr ''5 min read'')]]"

definition NewsletterEmail_params :: params where
  "NewsletterEmail_params =
     [(''title'', JStr ''Weekly Newsletter''),
      (''articles'', default_articles),
      (''companyName'', JStr ''Unipack''),
      (''unsubscribeUrl'', JStr ''#'')]"

text \<open>
  \<open>xs.map((x, index) => f)\<close>, where the callback may throw: the first exception ends the
  loop. Only an array has the method.
\<close>

fun map_index :: "(nat \<Rightarrow> 'a \<Rightarrow> error + 'b) \<Rightarrow> nat \<Rightarrow> 'a list \<Rightarrow> error + 'b list" where
  "map_index f i [] = Inr []"
| "map_index f i (x # xs) =
     then_do (f i x) (\<lambda>y. then_do (map_index f (Suc i) xs) (\<lambda>ys. Inr (y # ys)))"

definition array_map :: "jsval \<Rightarrow> (nat \<Rightarrow> jsval \<Rightarrow> nat \<Rightarrow> error + node) \<Rightarrow> error + node list" where
  "array_map v f =
     (case v of JArr xs \<Rightarrow> map_index (\<lambda>i x. f (length xs) x i) 0 xs | _ \<Rightarrow> Inl TypeError)"

text \<open>
  The callback of \<open>articles.map\<close>; \<open>len\<close> is \<open>articles.length\<close>. The rule after the block
  is the child \<open>{index < articles.length - 1 && <Hr/>}\<close>.
\<close>

definition articleSection :: "nat \<Rightarrow> jsval \<Rightarrow> nat \<Rightarrow> error + node" where
  "articleSection len article index =
     then_do (member article ''url'') (\<lambda>url.
     then_do (member article ''title'') (\<lambda>title.
     then_do (member article ''excerpt'') (\<lambda>excerpt.
     then_do (member article ''readTime'') (\<lambda>readTime.
       Inr (El Section ''articleSection'' [
         El Text ''articleTitle'' [Element Link ''articleLink'' url [Value title]],
         El Text ''articleExcerpt'' [Value excerpt],
         js_and_node readTime (El Text ''readTime'' [Value readTime]),
         El Section ''articleButtonContainer'' [
           Element Button ''articleButton'' url [Lit ''Read More'']],
         js_and_node (JBool (int index < int len - 1)) (El Hr ''articleHr'' [])])))))"

definition waving_hand :: string where
  "waving_hand =
     [CHR 0xC3, CHR 0xB0, CHR 0xC5, CHR 0xB8, CHR 0xE2, CHR 0x80, CHR 0x98, CHR 0xE2, CHR 0x80,
      CHR 0xB9]"

definition NewsletterEmail_tree :: "jsval \<Rightarrow> node list \<Rightarrow> jsval \<Rightarrow> jsval \<Rightarrow> node" where
  "NewsletterEmail_tree title blocks companyName unsubscribeUrl =
     El Html [] [
       El Head [] [],
       El Preview [] [Value title, Lit '' - Latest updates from '', Value companyName],
       El Body ''main'' [
         El Container ''container'' [
           El Section ''header'' [
             El Text ''logo'' [Value companyName],
             El Text ''headerSubtitle'' [Value title]],
           El Section ''content'' [
             El Text ''greeting'' [Lit (''Hello there! '' @ waving_hand)],
             El Text ''text'' [
               Lit ''Here's what's been happening at '', Value companyName,
               Lit '' this week. We've curated the most interesting updates, insights, and stories just for you.'']],
           El Section ''content'' (
             El Text ''sectionHeading'' [Lit ''Latest Articles''] # blocks),
           El Hr ''hr'' [],
           El Section ''content'' [
             El Text ''ctaText'' [
               Lit ''Want to stay connected? Follow us on social media for daily updates and behind-the-scenes content.''],
             El Section ''socialSection'' [
               Element Button ''socialButton'' (JStr ''#'') [Lit ''Twitter''],
               Element Button ''socialButton'' (JStr ''#'') [Lit ''LinkedIn''],
               Element Button ''socialButton'' (JStr ''#'') [Lit ''Facebook'']]],
           El Section ''footer'' [
             El Text ''footerText'' [
               Lit ([CHR 0xC3, CHR 0x82] @ copyright), Value companyName,
               Lit ''. All rights reserved.''],
             El Text ''footerText'' [
               Lit ''You're receiving this because you subscribed to our newsletter.''],
             El Text ''footerText'' [
               Element Link ''unsubscribeLink'' unsubscribeUrl [Lit ''Unsubscribe''],
               Lit '' | '',
               Element Link ''unsubscribeLink'' (JStr ''#'') [Lit ''Update preferences'']]]]]]"

definition NewsletterEmail :: "jsval \<Rightarrow> error + node" where
  "NewsletterEmail props =
     then_do (destructure NewsletterEmail_params props) (\<lambda>m.
     then_do (array_map (param m ''articles'') articleSection) (\<lambda>blocks.
       Inr (NewsletterEmail_tree (param m ''title'') blocks (param m ''companyName'')
              (param m ''unsubscribeUrl''))))"

section \<open>Style tables\<close>

type_synonym style_sheet = "(string \<times> (string \<times> string) list) list"

definition welcome_styles :: style_sheet where
  "welcome_styles =
   [(''main'',
      [(''backgroundColor'', ''#f6f9fc''),
       (''fontFamily'', ''-apple-system,BlinkMacSystemFont,'' @ [CHR 0x22] @ ''Segoe UI'' @ [CHR 0x22] @ '',Roboto,'' @ [CHR 0x22] @ ''Helvetica Neue'' @ [CHR 0x22] @ '',Ubuntu,sans-serif'')]),
    (''container'',
      [(''backgroundColor'', ''#ffffff''),
       (''margin'', ''0 auto''),
       (''padding'', ''20px 0 48px''),
       (''marginBottom'', ''64px''),
       (''maxWidth'', ''600px'')]),
    (''header'',
      [(''padding'', ''32px 24px''),
       (''backgroundColor'', ''#007bff''),
       (''textAlign'', ''center'')]),
    (''logo'',
      [(''fontSize'', ''28px''),
       (''fontWeight'', ''bold''),
       (''color'', ''#ffffff''),
       (''margin'', ''0'')]),
    (''content'',
      [(''padding'', ''0 24px'')]),
    (''heading'',
      [(''fontSize'', ''24px''),
       (''fontWeight'', ''bold''),
       (''color'', ''#333333''),
       (''margin'', ''40px 0 20px''),
       (''textAlign'', ''center'')]),
    (''text'',
      [(''fontSize'', ''16px''),
       (''lineHeight'', ''24px''),
       (''color'', ''#555555''),
       (''margin'', ''16px 0'')]),
    (''buttonContainer'',
      [(''textAlign'', ''center''),
       (''margin'', ''32px 0'')]),
    (''button'',
      [(''backgroundColor'', ''#007bff''),
       (''borderRadius'', ''6px''),
       (''color'', ''#ffffff''),
       (''fontSize'', ''16px''),
       (''fontWeight'', ''bold''),
       (''textDecoration'', ''none''),
       (''textAlign'', ''center''),
       (''display'', ''inline-block''),
       (''padding'', ''14px 28px''),
       (''border'', ''none'')]),
    (''hr'',
      [(''borderColor'', ''#e6ebf1''),
       (''margin'', ''32px 0'')]),
    (''footer'',
      [(''padding'', ''24px''),
       (''backgroundColor'', ''#f8f9fa''),
       (''textAlign'', ''center'')]),
    (''footerText'',
      [(''fontSize'', ''12px''),
       (''color'', ''#8898aa''),
       (''margin'', ''4px 0'')])]"

definition password_reset_styles :: style_sheet where
  "password_reset_styles =
   [(''main'',
      [(''backgroundColor'', ''#f6f9fc''),
       (''fontFamily'', ''-apple-system,BlinkMacSystemFont,'' @ [CHR 0x22] @ ''Segoe UI'' @ [CHR 0x22] @ '',Roboto,'' @ [CHR 0x22] @ ''Helvetica Neue'' @ [CHR 0x22] @ '',Ubuntu,sans-serif'')]),
    (''container'',
      [(''backgroundColor'', ''#ffffff''),
       (''margin'', ''0 auto''),
       (''padding'', ''20px 0 48px''),
       (''marginBottom'', ''64px''),
       (''maxWidth'', ''600px'')]),
    (''header'',
      [(''padding'', ''32px 24px''),
       (''backgroundColor'', ''#dc3545''),
       (''textAlign'', ''center'')]),
    (''logo'',
      [(''fontSize'', ''28px''),
       (''fontWeight'', ''bold''),
       (''color'', ''#ffffff''),
       (''margin'', ''0'')]),
    (''content'',
      [(''padding'', ''0 24px'')]),
    (''heading'',
      [(''fontSize'', ''24px''),
       (''fontWeight'', ''bold''),
       (''color'', ''#333333''),
       (''margin'', ''40px 0 20px''),
       (''textAlign'', ''center'')]),
    (''text'',
      [(''fontSize'', ''16px''),
       (''lineHeight'', ''24px''),
       (''color'', ''#555555''),
       (''margin'', ''16px 0'')]),
    (''buttonContainer'',
      [(''textAlign'', ''center''),
       (''margin'', ''32px 0'')]),
    (''button'',
      [(''backgroundColor'', ''#dc3545''),
       (''borderRadius'', ''6px''),
       (''color'', ''#ffffff''),
       (''fontSize'', ''16px''),
       (''fontWeight'', ''bold''),
       (''textDecoration'', ''none''),
       (''textAlign'', ''center''),
       (''display'', ''inline-block''),
       (''padding'', ''14px 28px''),
       (''border'', ''none'')]),
    (''warningSection'',
      [(''backgroundColor'', ''#fff3cd''),
       (''border'', ''1px solid #ffeeba''),
       (''borderRadius'', ''4px''),
       (''padding'', ''16px''),
       (''margin'', ''24px 0'')]),
    (''warningTitle'',
      [(''fontSize'', ''16px''),
       (''fontWeight'', ''bold''),
       (''color'', ''#856404''),
       (''margin'', ''0 0 12px'')]),
    (''warningText'',
      [(''fontSize'', ''14px''),
       (''lineHeight'', ''20px''),
       (''color'', ''#856404''),
       (''margin'', ''8px 0'')]),
    (''urlText'',
      [(''fontSize'', ''14px''),
       (''color'', ''#007bff''),
       (''wordBreak'', ''break-all''),
       (''margin'', ''12px 0''),
       (''padding'', ''12px''),
       (''backgroundColor'', ''#f8f9fa''),
       (''border'', ''1px solid #dee2e6''),
       (''borderRadius'', ''4px'')]),
    (''hr'',
      [(''borderColor'', ''#e6ebf1''),
       (''margin'', ''32px 0'')]),
    (''footer'',
      [(''padding'', ''24px''),
       (''backgroundColor'', ''#f8f9fa''),
       (''textAlign'', ''center'')]),
    (''footerText'',
      [(''fontSize'', ''12px''),
       (''color'', ''#8898aa''),
       (''margin'', ''4px 0'')])]"

definition newsletter_styles :: style_sheet where
  "newsletter_styles =
   [(''main'',
      [(''backgroundColor'', ''#f6f9fc''),
       (''fontFamily'', ''-apple-system,BlinkMacSystemFont,'' @ [CHR 0x22] @ ''Segoe UI'' @ [CHR 0x22] @ '',Roboto,'' @ [CHR 0x22] @ ''Helvetica Neue'' @ [CHR 0x22] @ '',Ubuntu,sans-serif'')]),
    (''container'',
      [(''backgroundColor'', ''#ffffff''),
       (''margin'', ''0 auto''),
       (''padding'', ''20px 0 48px''),
       (''marginBottom'', ''64px''),
       (''maxWidth'', ''600px'')]),
    (''header'',
      [(''padding'', ''32px 24px''),
       (''backgroundColor'', ''#007bff''),
       (''textAlign'', ''center'')]),
    (''logo'',
      [(''fontSize'', ''28px''),
       (''fontWeight'', ''bold''),
       (''color'', ''#ffffff''),
       (''margin'', ''0 0 8px 0'')]),
    (''headerSubtitle'',
      [(''fontSize'', ''16px''),
       (''color'', ''#ffffff''),
       (''margin'', ''0''),
       (''opacity'', ''0.9'')]),
    (''content'',
      [(''padding'', ''0 24px'')]),
    (''greeting'',
      [(''fontSize'', ''18px''),
       (''fontWeight'', ''600''),
       (''color'', ''#333333''),
       (''margin'', ''32px 0 16px'')]),
    (''text'',
      [(''fontSize'', ''16px''),
       (''lineHeight'', ''24px''),
       (''color'', ''#555555''),
       (''margin'', ''16px 0'')]),
    (''sectionHeading'',
      [(''fontSize'', ''20px''),
       (''fontWeight'', ''bold''),
       (''color'', ''#333333''),
       (''margin'', ''32px 0 20px''),
       (''borderBottom'', ''2px solid #007bff''),
       (''paddingBottom'', ''8px'')]),
    (''articleSection'',
      [(''margin'', ''24px 0'')]),
    (''articleTitle'',
      [(''fontSize'', ''18px''),
       (''fontWeight'', ''bold''),
       (''margin'', ''0 0 12px'')]),
    (''articleLink'',
      [(''color'', ''#007bff''),
       (''textDecoration'', ''none'')]),
    (''articleExcerpt'',
      [(''fontSize'', ''14px''),
       (''lineHeight'', ''20px''),
       (''color'', ''#666666''),
       (''margin'', ''0 0 8px'')]),
    (''readTime'',
      [(''fontSize'', ''12px''),
       (''color'', ''#999999''),
       (''margin'', ''0 0 16px'')]),
    (''articleButtonContainer'',
      [(''margin'', ''16px 0'')]),
    (''articleButton'',
      [(''backgroundColor'', ''transparent''),
       (''border'', ''1px solid #007bff''),
       (''borderRadius'', ''4px''),
       (''color'', ''#007bff''),
       (''fontSize'', ''14px''),
       (''fontWeight'', ''500''),
       (''textDecoration'', ''none''),
       (''textAlign'', ''center''),
       (''display'', ''inline-block''),
       (''padding'', ''8px 16px'')]),
    (''articleHr'',
      [(''borderColor'', ''#e6ebf1''),
       (''margin'', ''24px 0'')]),
    (''ctaText'',
      [(''fontSize'', ''16px''),
       (''lineHeight'', ''24px''),
       (''color'', ''#333333''),
       (''textAlign'', ''center''),
       (''margin'', ''24px 0 16px'')]),
    (''socialSection'',
      [(''textAlign'', ''center''),
       (''margin'', ''20px 0'')]),
    (''socialButton'',
      [(''backgroundColor'', ''#007bff''),
       (''borderRadius'', ''4px''),
       (''color'', ''#ffffff''),
       (''fontSize'', ''14px''),
       (''fontWeight'', ''500''),
       (''textDecoration'', ''none''),
       (''textAlign'', ''center''),
       (''display'', ''inline-block''),
       (''padding'', ''8px 16px''),
       (''margin'', ''0 8px''),
       (''border'', ''none'')]),
    (''hr'',
      [(''borderColor'', ''#e6ebf1''),
       (''margin'', ''32px 0'')]),
    (''footer'',
      [(''padding'', ''24px''),
       (''backgroundColor'', ''#f8f9fa''),
       (''textAlign'', ''center'')]),
    (''footerText'',
      [(''fontSize'', ''12px''),
       (''color'', ''#8898aa''),
       (''margin'', ''4px 0'')]),
    (''unsubscribeLink'',
      [(''color'', ''#8898aa''),
       (''textDecoration'', ''underline'')])]"

section \<open>Serializers\<close>

text \<open>
  The two serializers are \<open>render\<close> of the package \<open>@react-email/render\<close>, which is
  not part of this repository; section 4.2 of the specification describes them, and the
  definitions of this section follow that description.
\<close>

text \<open>Decimal digits of a number.\<close>

fun digits :: "nat \<Rightarrow> string" where
  "digits n = (if n < 10 then [char_of (48 + n)] else digits (n div 10) @ [char_of (48 + n mod 10)])"

declare digits.simps [simp del]

definition show_int :: "int \<Rightarrow> string" where
  "show_int i = (if i < 0 then CHR ''-'' # digits (nat (- i)) else digits (nat i))"

text \<open>
  Modelled from the spec: the text a value leaves in the output, in both modes of the render
  package, which is missing from the sources. Text is the already-substituted string, as it
  is; a number is printed in decimal; every other value (a missing field among them)
  degrades to empty text.
\<close>

fun child_text :: "jsval \<Rightarrow> string" where
  "child_text (JStr s) = s"
| "child_text (JNum n) = show_int n"
| "child_text _ = []"

text \<open>
  The pieces of an element in HTML: its tag, the target of a hyperlink, and the attributes
  of the style it refers to, taken from the style table of its template and written inline.
\<close>

definition tag :: "kind \<Rightarrow> string" where
  "tag k = (case k of Html \<Rightarrow> ''html'' | Head \<Rightarrow> ''head'' | Preview \<Rightarrow> ''div''
     | Body \<Rightarrow> ''body'' | Container \<Rightarrow> ''div'' | Section \<Rightarrow> ''div'' | Text \<Rightarrow> ''p''
     | Button \<Rightarrow> ''a'' | Hr \<Rightarrow> ''hr'' | Link \<Rightarrow> ''a'')"

definition hyperlink :: "kind \<Rightarrow> bool" where
  "hyperlink k = (k = Button \<or> k = Link)"

definition quoted :: "string \<Rightarrow> string" where
  "quoted s = [CHR 0x22] @ s @ [CHR 0x22]"

definition style_attr :: "style_sheet \<Rightarrow> string \<Rightarrow> string" where
  "style_attr sheet st =
     (case map_of sheet st of
        None \<Rightarrow> []
      | Some kvs \<Rightarrow> '' style='' @ quoted (concat (map (\<lambda>(k, v). k @ '':'' @ v @ '';'') kvs)))"

definition href_attr :: "kind \<Rightarrow> jsval \<Rightarrow> string" where
  "href_attr k href = (if hyperlink k then '' href='' @ quoted (child_text href) else [])"

definition open_tag :: "style_sheet \<Rightarrow> kind \<Rightarrow> string \<Rightarrow> jsval \<Rightarrow> string" where
  "open_tag sheet k st href = ''<'' @ tag k @ href_attr k href @ style_attr sheet st @ ''>''"

definition close_tag :: "kind \<Rightarrow> string" where
  "close_tag k = ''</'' @ tag k @ ''>''"

text \<open>
  Modelled from the spec: serialization to HTML by the render package, which is missing from
  the sources. Every node kind has one fixed rule: a container is a block-level wrapper, a
  text block a paragraph, a hyperlink an anchor carrying its target, a rule a divider
  element; each carries its style attributes inline; text is put out as it is.
\<close>

fun serialize_html :: "style_sheet \<Rightarrow> node \<Rightarrow> string" where
  "serialize_html sheet (Value v) = child_text v"
| "serialize_html sheet (Element k st href cs) =
     open_tag sheet k st href @ concat (map (serialize_html sheet) cs) @ close_tag k"

definition newline :: string where
  "newline = [CHR 0x0A]"

definition textless :: "kind \<Rightarrow> bool" where
  "textless k = (k = Head \<or> k = Preview \<or> k = Hr)"

text \<open>
  Modelled from the spec: serialization to plain text by the render package, which is
  missing from the sources. Styles are dropped; the head, the preview metadata and rules
  leave nothing but a line break; a container leaves its children between line breaks; a
  text block its visible text; a hyperlink its label followed by its target.
\<close>

fun serialize_text :: "node \<Rightarrow> string" where
  "serialize_text (Value v) = child_text v"
| "serialize_text (Element k st href cs) =
     (if textless k then newline
      else if k = Button then
        newline @ concat (map serialize_text cs) @ '' '' @ child_text href @ newline
      else if k = Link then
        '' '' @ concat (map serialize_text cs) @ '' '' @ child_text href @ '' ''
      else newline @ concat (map serialize_text cs) @ newline)"

section \<open>Words and occurrences\<close>

definition is_space :: "char \<Rightarrow> bool" where
  "is_space c = (c = CHR '' '' \<or> c = CHR 0x0A \<or> c = CHR 0x09 \<or> c = CHR 0x0D)"



text \<open>The number of positions of \<open>s\<close> at which \<open>p\<close> starts.\<close>

fun occurrences :: "string \<Rightarrow> string \<Rightarrow> nat" where
  "occurrences p [] = (if p = [] then 1 else 0)"
| "occurrences p (c # cs) = (if prefix p (c # cs) then 1 else 0) + occurrences p cs"

section \<open>Template registry and renderer\<close>

text \<open>
  \<open>templates\<close> is an object literal with the three templates as its own properties.
  \<open>templates[name]\<close> reads through the prototype chain, so a name of a property of
  \<open>Object.prototype\<close> reads as that property, which is a function or (for \<open>__proto__\<close>)
  an object: a truthy value in each case.
\<close>

datatype template = Welcome | Newsletter | PasswordReset | Inherited string

definition template_names :: "string list" where
  "template_names = [''welcome'', ''newsletter'', ''password-reset'']"

definition object_prototype_names :: "string list" where
  "object_prototype_names =
     [''constructor'', ''__defineGetter__'', ''__defineSetter__'', ''hasOwnProperty'',
      ''__lookupGetter__'', ''__lookupSetter__'', ''isPrototypeOf'', ''propertyIsEnumerable'',
      ''toString'', ''valueOf'', ''__proto__'', ''toLocaleString'']"

definition templates :: "string \<Rightarrow> template option" where
  "templates name =
     (if name = ''welcome'' then Some Welcome
      else if name = ''newsletter'' then Some Newsletter
      else if name = ''password-reset'' then Some PasswordReset
      else if name \<in> set object_prototype_names then Some (Inherited name)
      else None)"

definition styles :: "template \<Rightarrow> style_sheet" where
  "styles t = (case t of Welcome \<Rightarrow> welcome_styles | Newsletter \<Rightarrow> newsletter_styles
     | PasswordReset \<Rightarrow> password_reset_styles | Inherited k \<Rightarrow> [])"

text \<open>\<open>Template(data)\<close> for the three templates of the repository.\<close>

definition build :: "foreign \<Rightarrow> template \<Rightarrow> jsval \<Rightarrow> error + node" where
  "build fo t data =
     (case t of Welcome \<Rightarrow> WelcomeEmail data | Newsletter \<Rightarrow> NewsletterEmail data
      | PasswordReset \<Rightarrow> PasswordResetEmail fo data | Inherited k \<Rightarrow> Inl TypeError)"

text \<open>\<open>render(Template(data))\<close> and \<open>render(Template(data), { plainText: true })\<close>\<close>

definition render :: "foreign \<Rightarrow> template \<Rightarrow> jsval \<Rightarrow> bool \<Rightarrow> error + string" where
  "render fo t data plainText =
     (case t of
        Inherited k \<Rightarrow> inherited_call fo (RenderCall k data plainText)
      | _ \<Rightarrow> then_do (build fo t data) (\<lambda>tree.
               Inr (if plainText then serialize_text tree else serialize_html (styles t) tree)))"

definition renderEmailTemplate :: "foreign \<Rightarrow> string \<Rightarrow> jsval \<Rightarrow> jsval \<Rightarrow> error + params" where
  "renderEmailTemplate fo templateName data format =
     (case templates templateName of
        None \<Rightarrow> Inl (Error (''Template '' @ [CHR 0x27] @ templateName @ [CHR 0x27] @ '' not found''))
      | Some t \<Rightarrow>
          then_do (if format = JStr ''html'' \<or> format = JStr ''both''
                   then then_do (render fo t data False) (\<lambda>h. Inr [(''html'', JStr h)])
                   else Inr []) (\<lambda>html.
          then_do (if format = JStr ''text'' \<or> format = JStr ''both''
                   then then_do (render fo t data True) (\<lambda>x. Inr [(''text'', JStr x)])
                   else Inr []) (\<lambda>text.
            Inr (html @ text))))"

section \<open>HTTP servers\<close>

text \<open>
  A request as the handlers see it: the method, the path of the parsed URL, and what
  parsing the body as JSON gives (\<open>None\<close> when the body is not JSON text).
\<close>

record request = http_method :: string  pathname :: string  body :: "jsval option"

text \<open>
  The body of a response: nothing, a JSON object, a page of text, the documentation page, or
  the JSON envelope \<open>{success: false, error: error.message}\<close> of a caught error, whose
  message is the engine's text for a \<open>TypeError\<close>.
\<close>

datatype content = Empty | Json params | Page string | Docs | Caught error

record response =
  status :: nat
  headers :: "(string \<times> string) list"
  content :: content

text \<open>\<open>s.split(sep)\<close> for a separator that is not empty; \<open>acc\<close> is the piece being read, reversed.\<close>

function split_from :: "string \<Rightarrow> string \<Rightarrow> string \<Rightarrow> string list" where
  "split_from sep acc [] = [rev acc]"
| "split_from sep acc (c # cs) =
     (if sep \<noteq> [] \<and> prefix sep (c # cs)
      then rev acc # split_from sep [] (drop (length sep) (c # cs))
      else split_from sep (c # acc) cs)"
  by pat_completeness auto
termination
  by (relation "measure (\<lambda>(sep, acc, s). length s)") (auto simp: neq_Nil_conv)

definition split :: "string \<Rightarrow> string \<Rightarrow> string list" where
  "split s sep = split_from sep [] s"

text \<open>
  \<open>url.pathname.split(sep)[1]\<close> used as a property name; an index out of range reads as
  \<open>undefined\<close>, whose property name is the text \<open>undefined\<close>.
\<close>

definition path_param :: "string \<Rightarrow> string \<Rightarrow> string" where
  "path_param path sep = (case split path sep of _ # x # _ \<Rightarrow> x | _ \<Rightarrow> ''undefined'')"

fun join :: "string list \<Rightarrow> string \<Rightarrow> string" where
  "join [] sep = []"
| "join [x] sep = x"
| "join (x # y # ys) sep = x @ sep @ join (y # ys) sep"

definition corsHeaders :: "(string \<times> string) list" where
  "corsHeaders =
     [(''Access-Control-Allow-Origin'', ''*''),
      (''Access-Control-Allow-Methods'', ''GET, POST, PUT, DELETE, OPTIONS''),
      (''Access-Control-Allow-Headers'', ''Content-Type, Authorization'')]"

definition not_found_text :: "string \<Rightarrow> string" where
  "not_found_text templateName =
     ''Template '' @ [CHR 0x27] @ templateName @ [CHR 0x27]
       @ '' not found. Available templates: '' @ join template_names '', ''"

text \<open>Called with the names of \<open>Object.keys(templates)\<close> only.\<close>

definition getTemplateDescription :: "string \<Rightarrow> string" where
  "getTemplateDescription templateName =
     (if templateName = ''welcome'' then ''Welcome email for new user registration''
      else if templateName = ''newsletter'' then ''Newsletter email with articles and updates''
      else if templateName = ''password-reset'' then ''Password reset email with secure reset link''
      else ''Email template'')"

text \<open>
  The sample data of the three templates. For an inherited name \<open>sampleData[name]\<close> is the
  inherited property itself, which is no JSON value; that case is left to \<open>preview_page\<close>.
\<close>

definition getSampleData :: "template \<Rightarrow> jsval" where
  "getSampleData t =
     (case t of
        Welcome \<Rightarrow> JObj [
          (''username'', JStr ''John Doe''),
          (''loginUrl'', JStr ''https://app.unipack.com/login''),
          (''companyName'', JStr ''Unipack'')]
      | Newsletter \<Rightarrow> JObj [
          (''title'', JStr ''Weekly Newsletter''),
          (''companyName'', JStr ''Unipack''),
          (''articles'', JArr [
             JObj [
               (''title'', JStr ''Introducing New Features''),
               (''excerpt'', JStr ''We are excited to announce several new features that will enhance your experience...''),
               (''url'', JStr ''https://blog.unipack.com/new-features''),
               (''readTime'', JStr ''5 min read'')],
             JObj [
               (''title'', JStr ''Product Updates''),
               (''excerpt'', JStr ''This month we have shipped improvements to performance, security, and user interface...''),
               (''url'', JStr ''https://blog.unipack.com/product-updates''),
               (''readTime'', JStr ''3 min read'')]]),
          (''unsubscribeUrl'', JStr ''https://app.unipack.com/unsubscribe'')]
      | PasswordReset \<Rightarrow> JObj [
          (''username'', JStr ''John Doe''),
          (''resetUrl'', JStr ''https://app.unipack.com/reset-password?token=abc123''),
          (''companyName'', JStr ''Unipack''),
          (''expiryTime'', JStr ''24 hours'')]
      | Inherited k \<Rightarrow> JUndefined)"

definition health :: "string \<Rightarrow> params" where
  "health now =
     [(''status'', JStr ''healthy''), (''timestamp'', JStr now), (''version'', JStr ''1.0.0'')]"

definition template_list :: params where
  "template_list =
     [(''success'', JBool True),
      (''templates'', JArr (map (\<lambda>name. JObj [
          (''name'', JStr name),
          (''description'', JStr (getTemplateDescription name)),
          (''endpoint'', JStr (''/render/'' @ name))]) template_names))]"

definition template_not_found :: "string \<Rightarrow> params" where
  "template_not_found templateName =
     [(''success'', JBool False), (''error'', JStr (not_found_text templateName))]"

definition invalid_json :: params where
  "invalid_json = [(''success'', JBool False), (''error'', JStr ''Invalid JSON body'')]"

definition route_not_found :: params where
  "route_not_found =
     [(''success'', JBool False), (''error'', JStr ''Route not found''),
      (''availableRoutes'', JArr [JStr ''/health'', JStr ''/templates'',
         JStr ''/render/{templateName}'', JStr ''/preview/{templateName}''])]"

text \<open>
  The body of the render route once the template is found and the body is parsed:
  \<open>body.format || 'html'\<close>, \<open>body.data || {}\<close>, then \<open>renderEmailTemplate\<close>.
\<close>

definition render_body :: "foreign \<Rightarrow> string \<Rightarrow> jsval \<Rightarrow> error + params" where
  "render_body fo templateName b =
     then_do (member b ''format'') (\<lambda>f.
     then_do (member b ''data'') (\<lambda>d.
     then_do (renderEmailTemplate fo templateName (js_or d (JObj [])) (js_or f (JStr ''html'')))
       (\<lambda>rendered. Inr ((''success'', JBool True) # rendered))))"

text \<open>The preview route once the template is found: sample data, rendered as HTML.\<close>

definition preview_page :: "foreign \<Rightarrow> string \<Rightarrow> template \<Rightarrow> error + content" where
  "preview_page fo templateName t =
     (case t of
        Inherited k \<Rightarrow> then_do (inherited_call fo (PreviewCall k)) (\<lambda>h. Inr (Page h))
      | _ \<Rightarrow> then_do (renderEmailTemplate fo templateName (getSampleData t) (JStr ''html''))
               (\<lambda>rendered. case get_prop (JObj rendered) ''html'' of
                   JStr h \<Rightarrow> Inr (Page h) | _ \<Rightarrow> Inr Empty))"

subsection \<open>The Bun server\<close>

definition bun_json :: "nat \<Rightarrow> params \<Rightarrow> response" where
  "bun_json st obj =
     \<lparr>status = st, headers = (''Content-Type'', ''application/json'') # corsHeaders,
      content = Json obj\<rparr>"

text \<open>The \<open>try\<close> block of \<open>fetch\<close>; \<open>now\<close> is the clock, read by the health route.\<close>

definition fetch_try :: "foreign \<Rightarrow> string \<Rightarrow> request \<Rightarrow> error + response" where
  "fetch_try fo now req =
     (if pathname req = ''/health'' \<and> http_method req = ''GET'' then Inr (bun_json 200 (health now))
      else if pathname req = ''/templates'' \<and> http_method req = ''GET'' then
        Inr (bun_json 200 template_list)
      else if prefix ''/render/'' (pathname req) \<and> http_method req = ''POST'' then
        (let templateName = path_param (pathname req) ''/render/'' in
         case templates templateName of
           None \<Rightarrow> Inr (bun_json 404 (template_not_found templateName))
         | Some t \<Rightarrow>
             (case body req of
                None \<Rightarrow> Inr (bun_json 400 invalid_json)
              | Some b \<Rightarrow> then_do (render_body fo templateName b) (\<lambda>r. Inr (bun_json 200 r))))
      else if prefix ''/preview/'' (pathname req) \<and> http_method req = ''GET'' then
        (let templateName = path_param (pathname req) ''/preview/'' in
         case templates templateName of
           None \<Rightarrow> Inr \<lparr>status = 404, headers = corsHeaders,
                         content = Page (not_found_text templateName)\<rparr>
         | Some t \<Rightarrow> then_do (preview_page fo templateName t) (\<lambda>page.
             Inr \<lparr>status = 200, headers = (''Content-Type'', ''text/html'') # corsHeaders,
                  content = page\<rparr>))
      else if pathname req = ''/'' \<and> http_method req = ''GET'' then
        Inr \<lparr>status = 200, headers = (''Content-Type'', ''text/html'') # corsHeaders,
             content = Docs\<rparr>
      else Inr (bun_json 404 route_not_found))"

definition fetch :: "foreign \<Rightarrow> string \<Rightarrow> request \<Rightarrow> response" where
  "fetch fo now req =
     (if http_method req = ''OPTIONS'' then \<lparr>status = 200, headers = corsHeaders, content = Empty\<rparr>
      else case fetch_try fo now req of
             Inr r \<Rightarrow> r
           | Inl e \<Rightarrow> \<lparr>status = 500,
                       headers = (''Content-Type'', ''application/json'') # corsHeaders,
                       content = Caught e\<rparr>)"

subsection \<open>The Node server\<close>

definition node_json :: "nat \<Rightarrow> params \<Rightarrow> response" where
  "node_json st obj =
     \<lparr>status = st, headers = corsHeaders @ [(''Content-Type'', ''application/json'')],
      content = Json obj\<rparr>"

text \<open>
  The \<open>try\<close> block of the request listener. On the render route parsing and rendering
  share one inner \<open>try\<close>, whose \<open>catch\<close> answers 400 whatever was thrown.
\<close>

definition listener_try :: "foreign \<Rightarrow> string \<Rightarrow> request \<Rightarrow> error + response" where
  "listener_try fo now req =
     (if http_method req = ''OPTIONS'' then
        Inr \<lparr>status = 200, headers = corsHeaders, content = Empty\<rparr>
      else if pathname req = ''/health'' \<and> http_method req = ''GET'' then
        Inr (node_json 200 (health now))
      else if pathname req = ''/templates'' \<and> http_method req = ''GET'' then
        Inr (node_json 200 template_list)
      else if prefix ''/render/'' (pathname req) \<and> http_method req = ''POST'' then
        (let templateName = path_param (pathname req) ''/render/'' in
         case templates templateName of
           None \<Rightarrow> Inr (node_json 404 (template_not_found templateName))
         | Some t \<Rightarrow>
             (case body req of
                None \<Rightarrow> Inr (node_json 400 invalid_json)
              | Some b \<Rightarrow>
                  (case render_body fo templateName b of
                     Inr r \<Rightarrow> Inr (node_json 200 r)
                   | Inl e \<Rightarrow> Inr (node_json 400 invalid_json))))
      else if prefix ''/preview/'' (pathname req) \<and> http_method req = ''GET'' then
        (let templateName = path_param (pathname req) ''/preview/'' in
         case templates templateName of
           None \<Rightarrow> Inr \<lparr>status = 404, headers = corsHeaders,
                         content = Page (not_found_text templateName)\<rparr>
         | Some t \<Rightarrow> then_do (preview_page fo templateName t) (\<lambda>page.
             Inr \<lparr>status = 200, headers = corsHeaders @ [(''Content-Type'', ''text/html'')],
                  content = page\<rparr>))
      else if pathname req = ''/'' \<and> http_method req = ''GET'' then
        Inr \<lparr>status = 200, headers = corsHeaders @ [(''Content-Type'', ''text/html'')],
             content = Docs\<rparr>
      else Inr (node_json 404 route_not_found))"

definition listener :: "foreign \<Rightarrow> string \<Rightarrow> request \<Rightarrow> response" where
  "listener fo now req =
     (case listener_try fo now req of
        Inr r \<Rightarrow> r
      | Inl e \<Rightarrow> \<lparr>status = 500,
                  headers = corsHeaders @ [(''Content-Type'', ''application/json'')],
                  content = Caught e\<rparr>)"

section \<open>Values a serializer shows\<close>

text \<open>
  The values whose text the plain-text serializer puts out: every value child outside the
  head, the preview and rules, and the target of every hyperlink.
\<close>

fun text_values :: "node \<Rightarrow> jsval list" where
  "text_values (Value v) = [v]"
| "text_values (Element k st href cs) =
     (if textless k then []
      else concat (map text_values cs) @ (if hyperlink k then [href] else []))"

definition space_free :: "string \<Rightarrow> bool" where
  "space_free w = (\<forall>c \<in> set w. \<not> is_space c)"

text \<open>
  An engine on which every call of an inherited property throws (and which leaves strings
  outside ASCII as they are), for closed examples.
\<close>

definition no_foreign :: foreign where
  "no_foreign = \<lparr>inherited_call = (\<lambda>c. Inl TypeError), lower_case = (\<lambda>s. s)\<rparr>"

section \<open>Data Bags the templates can build from\<close>

text \<open>
  The props interfaces declare \<open>companyName?: string\<close> and
  \<open>articles?: Array<{...}>\<close>: the value is absent, or has the declared type. An element
  of \<open>articles\<close> must be a value a property can be read from.
\<close>

definition string_or_absent :: "jsval \<Rightarrow> bool" where
  "string_or_absent v = (case v of JUndefined \<Rightarrow> True | JStr s \<Rightarrow> True | _ \<Rightarrow> False)"

definition array_or_absent :: "jsval \<Rightarrow> bool" where
  "array_or_absent v =
     (case v of JUndefined \<Rightarrow> True | JArr xs \<Rightarrow> list_all (\<lambda>x. \<not> nullish x) xs | _ \<Rightarrow> False)"

definition buildable :: "template \<Rightarrow> jsval \<Rightarrow> bool" where
  "buildable t data =
     (\<not> nullish data \<and>
      (case t of
         Welcome \<Rightarrow> True
       | Newsletter \<Rightarrow> array_or_absent (get_prop data ''articles'')
       | PasswordReset \<Rightarrow> string_or_absent (get_prop data ''companyName'')
       | Inherited k \<Rightarrow> False))"

section \<open>Looking into a document tree\<close>

text \<open>The elements of a tree that carry a given style, in document order.\<close>

fun find_styled :: "string \<Rightarrow> node \<Rightarrow> node list" where
  "find_styled st (Value v) = []"
| "find_styled st (Element k s href cs) =
     (if s = st then [Element k s href cs] else []) @ concat (map (find_styled st) cs)"

fun children :: "node \<Rightarrow> node list" where
  "children (Element k s href cs) = cs"
| "children (Value v) = []"

fun styled :: "string \<Rightarrow> node \<Rightarrow> bool" where
  "styled st (Element k s href cs) = (s = st)"
| "styled st (Value v) = False"

definition has_child :: "string \<Rightarrow> node \<Rightarrow> bool" where
  "has_child st n = list_ex (styled st) (children n)"

text \<open>
  An article as the props interface declares it, as far as the template's branching goes:
  a record whose \<open>readTime\<close> is absent or a string.
\<close>

definition article_record :: "jsval \<Rightarrow> bool" where
  "article_record a =
     (case a of JObj kvs \<Rightarrow> string_or_absent (get_prop a ''readTime'') | _ \<Rightarrow> False)"

section \<open>Counting occurrences in the HTML piece by piece\<close>


section \<open>Merged values, article blocks and hyperlinks\<close>


text \<open>
  The block of one article: its title linked to its url, its excerpt, the read-time text
  when \<open>readTime\<close> is neither absent nor empty, the button to its url, and the article
  divider when the block is \<open>divided\<close> from a next one. Where a conditional node is left
  out, the tree holds the value of its condition.
\<close>

definition article_block :: "jsval \<Rightarrow> bool \<Rightarrow> node" where
  "article_block a divided =
     El Section ''articleSection'' [
       El Text ''articleTitle'' [
         Element Link ''articleLink'' (get_prop a ''url'') [Value (get_prop a ''title'')]],
       El Text ''articleExcerpt'' [Value (get_prop a ''excerpt'')],
       (if get_prop a ''readTime'' \<in> {JUndefined, JStr []} then Value (get_prop a ''readTime'')
        else El Text ''readTime'' [Value (get_prop a ''readTime'')]),
       El Section ''articleButtonContainer'' [
         Element Button ''articleButton'' (get_prop a ''url'') [Lit ''Read More'']],
       (if divided then El Hr ''articleHr'' [] else Value (JBool False))]"

text \<open>The elements of a tree in document order, each by its component and its style.\<close>

fun outline :: "node \<Rightarrow> (kind \<times> string) list" where
  "outline (Value v) = []"
| "outline (Element k st href cs) = (k, st) # concat (map outline cs)"

text \<open>
  The hyperlinks a tree shows (those outside the head, the preview and rules), each as its
  label, which is its list of children, and its target.
\<close>

fun hyperlinks :: "node \<Rightarrow> (node list \<times> jsval) list" where
  "hyperlinks (Value v) = []"
| "hyperlinks (Element k st href cs) =
     (if textless k then []
      else (if hyperlink k then [(cs, href)] else []) @ concat (map hyperlinks cs))"

section \<open>Basic facts\<close>

lemma then_do_Inr [simp]: "then_do (Inr x) f = f x"
  by (simp add: then_do_def)

lemma then_do_Inl [simp]: "then_do (Inl e) f = Inl e"
  by (simp add: then_do_def)

lemma then_do_eq_Inr: "then_do r f = Inr y \<longleftrightarrow> (\<exists>x. r = Inr x \<and> f x = Inr y)"
  by (cases r) simp_all


lemma destructure_ok:
  "\<not> nullish props \<Longrightarrow>
   destructure decl props = Inr (map (\<lambda>(k, d). (k, default_param (get_prop props k) d)) decl)"
  by (simp add: destructure_def)

lemma map_of_merged:
  "map_of (map (\<lambda>(k, d). (k, f k d)) decl) k = map_option (f k) (map_of decl k)"
  by (induction decl) auto

lemma param_merged:
  assumes "map_of decl k = Some d"
  shows "param (map (\<lambda>(k, d). (k, default_param (get_prop props k) d)) decl) k
         = default_param (get_prop props k) d"
  using assms by (simp add: param_def map_of_merged)

section \<open>Names the registry lookup lets through\<close>

lemma path_param_render_names:
  "path_param ''/render/welcome'' ''/render/'' = ''welcome''"
  "path_param ''/render/newsletter'' ''/render/'' = ''newsletter''"
  "path_param ''/render/password-reset'' ''/render/'' = ''password-reset''"
  "path_param ''/render/constructor'' ''/render/'' = ''constructor''"
  "path_param ''/render/toString'' ''/render/'' = ''toString''"
  by (simp_all add: path_param_def split_def)

lemma templates_inherited:
  "templates ''constructor'' = Some (Inherited ''constructor'')"
  "templates ''toString'' = Some (Inherited ''toString'')"
  by (simp_all add: templates_def object_prototype_names_def)

lemma templates_registered:
  "templates ''welcome'' = Some Welcome"
  "templates ''newsletter'' = Some Newsletter"
  "templates ''password-reset'' = Some PasswordReset"
  by (simp_all add: templates_def)

text \<open>
  What both servers do for a name the lookup does not find: the 404 envelope that lists the
  template names, whatever the body is.
\<close>

lemma name_not_found_is_404:
  assumes "prefix ''/render/'' (pathname req)" and "http_method req = ''POST''"
    and "templates (path_param (pathname req) ''/render/'') = None"
  shows "fetch fo now req = bun_json 404 (template_not_found (path_param (pathname req) ''/render/''))"
    and "listener fo now req = node_json 404 (template_not_found (path_param (pathname req) ''/render/''))"
  using assms by (auto simp add: fetch_def fetch_try_def listener_def listener_try_def)

section \<open>The trees the templates build\<close>

lemma WelcomeEmail_ok:
  "\<not> nullish props \<Longrightarrow>
   WelcomeEmail props =
     Inr (WelcomeEmail_tree (default_param (get_prop props ''username'') (JStr ''User''))
            (default_param (get_prop props ''loginUrl'') (JStr ''#''))
            (default_param (get_prop props ''companyName'') (JStr ''Unipack'')))"
  by (simp add: WelcomeEmail_def destructure_ok WelcomeEmail_params_def param_def)


lemma PasswordResetEmail_ok:
  assumes "\<not> nullish props"
  shows "PasswordResetEmail fo props =
     then_do (toLowerCase fo (default_param (get_prop props ''companyName'') (JStr ''Unipack'')))
       (\<lambda>companyLower.
         Inr (PasswordResetEmail_tree
                (default_param (get_prop props ''username'') (JStr ''User''))
                (default_param (get_prop props ''resetUrl'') (JStr ''#''))
                (default_param (get_prop props ''companyName'') (JStr ''Unipack''))
                (default_param (get_prop props ''expiryTime'') (JStr ''24 hours''))
                companyLower))"
  using assms
  by (simp add: PasswordResetEmail_def destructure_ok PasswordResetEmail_params_def param_def)

lemma NewsletterEmail_ok:
  assumes "\<not> nullish props"
  shows "NewsletterEmail props =
     then_do (array_map (default_param (get_prop props ''articles'') default_articles)
                articleSection)
       (\<lambda>blocks.
         Inr (NewsletterEmail_tree
                (default_param (get_prop props ''title'') (JStr ''Weekly Newsletter''))
                blocks
                (default_param (get_prop props ''companyName'') (JStr ''Unipack''))
                (default_param (get_prop props ''unsubscribeUrl'') (JStr ''#''))))"
  using assms
  by (simp add: NewsletterEmail_def destructure_ok NewsletterEmail_params_def param_def)



section \<open>When a template builds\<close>

lemma member_ok [simp]: "\<not> nullish v \<Longrightarrow> member v k = Inr (get_prop v k)"
  by (simp add: member_def)

lemma member_nullish [simp]: "nullish v \<Longrightarrow> member v k = Inl TypeError"
  by (simp add: member_def)

lemma articleSection_Inr_iff:
  "(\<exists>b. articleSection len a i = Inr b) \<longleftrightarrow> \<not> nullish a"
  by (cases "nullish a") (simp_all add: articleSection_def)

lemma map_index_Inr_iff:
  "map_index f i xs = Inr ys \<longleftrightarrow>
     length ys = length xs \<and> (\<forall>j < length xs. f (i + j) (xs ! j) = Inr (ys ! j))"
proof (induction xs arbitrary: i ys)
  case Nil
  then show ?case by auto
next
  case (Cons x xs)
  show ?case
  proof (cases ys)
    case Nil
    then show ?thesis by (auto simp: then_do_eq_Inr)
  next
    case (Cons y ys')
    have "(\<forall>j < Suc (length xs). f (i + j) ((x # xs) ! j) = Inr ((y # ys') ! j))
          \<longleftrightarrow> f i x = Inr y \<and> (\<forall>j < length xs. f (Suc i + j) (xs ! j) = Inr (ys' ! j))"
      by (auto simp: less_Suc_eq_0_disj)
    then show ?thesis
      using Cons Cons.IH [of "Suc i" ys'] by (auto simp: then_do_eq_Inr)
  qed
qed

lemma map_index_total:
  "(\<exists>ys. map_index f i xs = Inr ys) \<longleftrightarrow> (\<forall>j < length xs. \<exists>y. f (i + j) (xs ! j) = Inr y)"
proof
  assume "\<exists>ys. map_index f i xs = Inr ys"
  then show "\<forall>j < length xs. \<exists>y. f (i + j) (xs ! j) = Inr y"
    by (auto simp: map_index_Inr_iff)
next
  assume a: "\<forall>j < length xs. \<exists>y. f (i + j) (xs ! j) = Inr y"
  define ys where "ys = map (\<lambda>j. projr (f (i + j) (xs ! j))) [0..<length xs]"
  have "map_index f i xs = Inr ys"
    unfolding map_index_Inr_iff using a by (auto simp: ys_def)
  then show "\<exists>ys. map_index f i xs = Inr ys" ..
qed

lemma array_map_articles_iff:
  "(\<exists>bs. array_map v articleSection = Inr bs) \<longleftrightarrow> (\<exists>xs. v = JArr xs \<and> list_all (\<lambda>x. \<not> nullish x) xs)"
proof (cases v)
  case (JArr xs)
  have "(\<exists>bs. map_index (\<lambda>i x. articleSection (length xs) x i) 0 xs = Inr bs)
        \<longleftrightarrow> (\<forall>j < length xs. \<not> nullish (xs ! j))"
    by (simp add: map_index_total articleSection_Inr_iff)
  then show ?thesis
    using JArr by (simp add: array_map_def list_all_length)
qed (simp_all add: array_map_def)

lemma toLowerCase_Inr_iff: "(\<exists>l. toLowerCase fo v = Inr l) \<longleftrightarrow> (\<exists>s. v = JStr s)"
  by (cases v) (simp_all add: toLowerCase_def)

lemma destructure_Inr_iff: "(\<exists>m. destructure decl props = Inr m) \<longleftrightarrow> \<not> nullish props"
  by (simp add: destructure_def)

lemma destructure_nullish [simp]: "nullish props \<Longrightarrow> destructure decl props = Inl TypeError"
  by (simp add: destructure_def)

lemma PasswordResetEmail_Inr_iff:
  "(\<exists>tree. PasswordResetEmail fo data = Inr tree)
   \<longleftrightarrow> \<not> nullish data \<and> string_or_absent (get_prop data ''companyName'')"
proof (cases "nullish data")
  case True
  then show ?thesis by (simp add: PasswordResetEmail_def)
next
  case False
  have "(\<exists>l. toLowerCase fo (default_param (get_prop data ''companyName'') (JStr ''Unipack'')) = Inr l)
        \<longleftrightarrow> string_or_absent (get_prop data ''companyName'')"
    by (cases "get_prop data ''companyName''")
       (simp_all add: default_param_def toLowerCase_def string_or_absent_def)
  then show ?thesis
    using False
    by (simp add: PasswordResetEmail_def destructure_ok PasswordResetEmail_params_def param_def
          then_do_eq_Inr)
qed

lemma NewsletterEmail_Inr_iff:
  "(\<exists>tree. NewsletterEmail data = Inr tree)
   \<longleftrightarrow> \<not> nullish data \<and> array_or_absent (get_prop data ''articles'')"
proof (cases "nullish data")
  case True
  then show ?thesis by (simp add: NewsletterEmail_def)
next
  case False
  let ?a = "default_param (get_prop data ''articles'') default_articles"
  have "(\<exists>xs. ?a = JArr xs \<and> list_all (\<lambda>x. \<not> nullish x) xs)
        \<longleftrightarrow> array_or_absent (get_prop data ''articles'')"
    by (cases "get_prop data ''articles''")
       (simp_all add: default_param_def array_or_absent_def default_articles_def nullish_def)
  then have "(\<exists>bs. array_map ?a articleSection = Inr bs)
        \<longleftrightarrow> array_or_absent (get_prop data ''articles'')"
    by (simp only: array_map_articles_iff)
  moreover have "param (map (\<lambda>(k, d). (k, default_param (get_prop data k) d)) NewsletterEmail_params) ''articles'' = ?a"
    by (simp add: NewsletterEmail_params_def param_def)
  ultimately show ?thesis
    using False
    by (simp add: NewsletterEmail_def destructure_ok then_do_eq_Inr)
qed

lemma build_Inr_iff: "(\<exists>tree. build fo t data = Inr tree) \<longleftrightarrow> buildable t data"
proof (cases t)
  case Welcome
  show ?thesis
  proof (cases "nullish data")
    case True
    then show ?thesis using Welcome by (simp add: build_def buildable_def WelcomeEmail_def)
  next
    case False
    then show ?thesis using Welcome by (simp add: build_def buildable_def WelcomeEmail_ok)
  qed
next
  case Newsletter
  then show ?thesis by (simp add: build_def buildable_def NewsletterEmail_Inr_iff)
next
  case PasswordReset
  then show ?thesis by (simp add: build_def buildable_def PasswordResetEmail_Inr_iff)
next
  case (Inherited k)
  then show ?thesis by (simp add: build_def buildable_def)
qed

section \<open>Rendering a registered template\<close>




lemma render_registered:
  "t = Welcome \<or> t = Newsletter \<or> t = PasswordReset \<Longrightarrow>
   render fo t data p =
     then_do (build fo t data) (\<lambda>tree.
       Inr (if p then serialize_text tree else serialize_html (styles t) tree))"
  by (auto simp: render_def)


lemma renderEmailTemplate_ok:
  assumes "t = Welcome \<or> t = Newsletter \<or> t = PasswordReset" and "templates name = Some t"
    and "build fo t d = Inr tree"
  shows "renderEmailTemplate fo name d f =
     Inr ((if f = JStr ''html'' \<or> f = JStr ''both''
           then [(''html'', JStr (serialize_html (styles t) tree))] else [])
          @ (if f = JStr ''text'' \<or> f = JStr ''both''
             then [(''text'', JStr (serialize_text tree))] else []))"
  using assms by (simp add: renderEmailTemplate_def render_registered)



section \<open>The text is a projection of the HTML\<close>

lemma space_free_Nil [simp]: "space_free []"
  by (simp add: space_free_def)

lemma space_free_Cons [simp]: "space_free (c # cs) \<longleftrightarrow> \<not> is_space c \<and> space_free cs"
  by (simp add: space_free_def)

lemma space_free_append [simp]: "space_free (xs @ ys) \<longleftrightarrow> space_free xs \<and> space_free ys"
  by (auto simp: space_free_def)



lemma sublist_inside: "sublist u ys \<Longrightarrow> sublist u (xs @ ys @ zs)"
  by (auto simp: sublist_append)









lemma href_in_open_tag: "hyperlink k \<Longrightarrow> sublist (child_text href) (open_tag sh k st href)"
  by (simp add: open_tag_def href_attr_def quoted_def sublist_append sublist_Cons_right)







section \<open>What the outputs contain\<close>

lemma sublist_concat_member:
  assumes "c \<in> set cs" and "sublist u (f c)"
  shows "sublist u (concat (map f cs))"
proof -
  obtain as bs where "cs = as @ c # bs"
    using assms(1) by (auto simp: in_set_conv_decomp)
  then show ?thesis
    using assms(2) by (simp add: sublist_append)
qed

lemma value_in_html:
  "v \<in> set (text_values t) \<Longrightarrow> sublist (child_text v) (serialize_html sh t)"
proof (induction t)
  case (Value u)
  then show ?case by simp
next
  case (Element k st href cs)
  from Element.prems
  consider c where "c \<in> set cs" "v \<in> set (text_values c)" | "hyperlink k" "v = href"
    by (auto split: if_splits)
  then show ?case
  proof cases
    case 1
    then have "sublist (child_text v) (concat (map (serialize_html sh) cs))"
      using Element.IH [of c] sublist_concat_member [of c cs "child_text v" "serialize_html sh"]
      by simp
    then show ?thesis by (simp add: sublist_inside)
  next
    case 2
    then have "sublist (child_text v) (open_tag sh k st href)"
      using href_in_open_tag [of k href sh st] by simp
    then show ?thesis by (simp add: sublist_append)
  qed
qed



lemma occurrences_Nil [simp]: "p \<noteq> [] \<Longrightarrow> occurrences p [] = 0"
  by simp








section \<open>Merging the Data Bag with the defaults\<close>




section \<open>Totality of merge and build\<close>

text \<open>
  C2, as stated, fails: the newsletter template calls \<open>articles.map\<close> and the
  password-reset template calls \<open>companyName.toLowerCase()\<close>, so a value of another type
  for either raises a \<open>TypeError\<close>; the Bun server then answers 500 with the envelope of
  the caught error, and the Node server 400.
\<close>

theorem ill_typed_fields_counterexample:
  "NewsletterEmail (JObj [(''articles'', JStr ''none'')]) = Inl TypeError
   \<and> PasswordResetEmail no_foreign (JObj [(''companyName'', JNum 7)]) = Inl TypeError
   \<and> status (fetch no_foreign [] \<lparr>http_method = ''POST'', pathname = ''/render/newsletter'',
        body = Some (JObj [(''data'', JObj [(''articles'', JStr ''none'')])])\<rparr>) = 500
   \<and> content (fetch no_foreign [] \<lparr>http_method = ''POST'', pathname = ''/render/newsletter'',
        body = Some (JObj [(''data'', JObj [(''articles'', JStr ''none'')])])\<rparr>)
       = Caught TypeError
   \<and> status (listener no_foreign [] \<lparr>http_method = ''POST'',
        pathname = ''/render/newsletter'',
        body = Some (JObj [(''data'', JObj [(''articles'', JStr ''none'')])])\<rparr>) = 400"
proof -
  have n: "NewsletterEmail (JObj [(''articles'', JStr ''none'')]) = Inl TypeError"
    by (simp add: NewsletterEmail_ok nullish_def default_param_def array_map_def)
  have p: "PasswordResetEmail no_foreign (JObj [(''companyName'', JNum 7)]) = Inl TypeError"
    by (simp add: PasswordResetEmail_ok nullish_def default_param_def toLowerCase_def)
  have "render_body no_foreign ''newsletter''
          (JObj [(''data'', JObj [(''articles'', JStr ''none'')])]) = Inl TypeError"
    using n
    by (simp add: render_body_def nullish_def js_or_def renderEmailTemplate_def
          templates_registered render_def build_def)
  then show ?thesis
    using n p
    by (simp add: fetch_def fetch_try_def listener_def listener_try_def node_json_def
          path_param_render_names templates_registered)
qed

text \<open>
  C2, amended: merge and build of a template complete without raising exactly when the Data
  Bag is neither \<open>null\<close> nor \<open>undefined\<close> and, for the newsletter, \<open>articles\<close> is absent
  or an array without \<open>null\<close> elements and, for password-reset, \<open>companyName\<close> is absent
  or a string. Every other field may be missing or of any type: merge and build complete
  all the same.
\<close>

theorem build_succeeds_iff_well_typed:
  "(\<exists>tree. build fo t data = Inr tree) \<longleftrightarrow> buildable t data"
  by (rule build_Inr_iff)

theorem build_succeeds_iff_well_typed_witness:
  "(\<exists>tree. build no_foreign Newsletter
       (JObj [(''articles'', JArr [JObj [(''title'', JNum 3)]])]) = Inr tree)
   \<and> (\<exists>tree. build no_foreign PasswordReset (JObj [(''username'', JBool True)]) = Inr tree)
   \<and> \<not> (\<exists>tree. build no_foreign Newsletter (JObj [(''articles'', JNull)]) = Inr tree)"
  using build_succeeds_iff_well_typed
          [of no_foreign Newsletter "JObj [(''articles'', JArr [JObj [(''title'', JNum 3)]])]"]
        build_succeeds_iff_well_typed [of no_foreign PasswordReset "JObj [(''username'', JBool True)]"]
        build_succeeds_iff_well_typed [of no_foreign Newsletter "JObj [(''articles'', JNull)]"]
  by (simp add: buildable_def nullish_def array_or_absent_def string_or_absent_def)

section \<open>Expansion of the article list\<close>

lemma get_prop_defined: "get_prop v k \<noteq> JUndefined \<Longrightarrow> \<not> nullish v"
  by (cases v) (simp_all add: nullish_def)

lemma article_record_not_nullish: "article_record a \<Longrightarrow> \<not> nullish a"
  by (cases a) (simp_all add: article_record_def nullish_def)

lemma article_record_readTime:
  "article_record a \<Longrightarrow>
   truthy (get_prop a ''readTime'') \<longleftrightarrow> get_prop a ''readTime'' \<notin> {JUndefined, JStr []}"
  by (cases a; cases "get_prop a ''readTime''")
     (simp_all add: article_record_def string_or_absent_def)

lemma articleSection_record:
  assumes "article_record a"
  shows "articleSection len a i = Inr (article_block a (i + 1 < len))"
proof -
  have "\<not> nullish a"
    using assms by (rule article_record_not_nullish)
  moreover have "int i < int len - 1 \<longleftrightarrow> i + 1 < len"
    by auto
  ultimately show ?thesis
    using article_record_readTime [OF assms]
    by (simp add: articleSection_def article_block_def js_and_node_def)
qed

lemma article_block_observed:
  "find_styled ''articleSection'' (article_block a divided) = [article_block a divided]"
  "has_child ''articleHr'' (article_block a divided) \<longleftrightarrow> divided"
  "divided \<Longrightarrow> last (children (article_block a divided)) = El Hr ''articleHr'' []"
  "has_child ''readTime'' (article_block a divided)
     \<longleftrightarrow> get_prop a ''readTime'' \<notin> {JUndefined, JStr []}"
  by (simp_all add: article_block_def has_child_def)

lemma article_block_content:
  "([Value (get_prop a ''title'')], get_prop a ''url'') \<in> set (hyperlinks (article_block a divided))"
  "([Lit ''Read More''], get_prop a ''url'') \<in> set (hyperlinks (article_block a divided))"
  "get_prop a ''excerpt'' \<in> set (text_values (article_block a divided))"
  by (simp_all add: article_block_def textless_def hyperlink_def)

lemma concat_map_singletons: "(\<And>x. x \<in> set xs \<Longrightarrow> f x = [x]) \<Longrightarrow> concat (map f xs) = xs"
  by (induction xs) simp_all

lemma find_articles_in_newsletter:
  "find_styled ''articleSection'' (NewsletterEmail_tree title blocks companyName unsubscribeUrl)
   = concat (map (find_styled ''articleSection'') blocks)"
  by (simp add: NewsletterEmail_tree_def)

lemma outline_newsletter:
  "outline (NewsletterEmail_tree title blocks companyName unsubscribeUrl) =
     [(Html, []), (Head, []), (Preview, []), (Body, ''main''), (Container, ''container''),
      (Section, ''header''), (Text, ''logo''), (Text, ''headerSubtitle''),
      (Section, ''content''), (Text, ''greeting''), (Text, ''text''),
      (Section, ''content''), (Text, ''sectionHeading'')]
     @ concat (map outline blocks)
     @ [(Hr, ''hr''), (Section, ''content''), (Text, ''ctaText''), (Section, ''socialSection''),
        (Button, ''socialButton''), (Button, ''socialButton''), (Button, ''socialButton''),
        (Section, ''footer''), (Text, ''footerText''), (Text, ''footerText''),
        (Text, ''footerText''), (Link, ''unsubscribeLink''), (Link, ''unsubscribeLink'')]"
  by (simp add: NewsletterEmail_tree_def)

lemma map_index_records:
  assumes "\<And>j. j < length xs \<Longrightarrow> f (i + j) (xs ! j) = Inr (g (i + j) (xs ! j))"
  shows "map_index f i xs = Inr (map (\<lambda>j. g (i + j) (xs ! j)) [0..<length xs])"
  using assms by (simp add: map_index_Inr_iff)

lemma NewsletterEmail_records:
  assumes "get_prop data ''articles'' = JArr as" and "list_all article_record as"
  shows "NewsletterEmail data =
       Inr (NewsletterEmail_tree
              (default_param (get_prop data ''title'') (JStr ''Weekly Newsletter''))
              (map (\<lambda>i. article_block (as ! i) (i + 1 < length as)) [0..<length as])
              (default_param (get_prop data ''companyName'') (JStr ''Unipack''))
              (default_param (get_prop data ''unsubscribeUrl'') (JStr ''#'')))"
proof -
  have d: "\<not> nullish data"
    using assms(1) get_prop_defined [of data "''articles''"] by simp
  have "map_index (\<lambda>i x. articleSection (length as) x i) 0 as
        = Inr (map (\<lambda>j. article_block (as ! j) (0 + j + 1 < length as)) [0..<length as])"
    using assms(2)
    by (intro map_index_records [where g = "\<lambda>i x. article_block x (i + 1 < length as)"])
       (simp add: list_all_length articleSection_record)
  then have "array_map (JArr as) articleSection
        = Inr (map (\<lambda>i. article_block (as ! i) (i + 1 < length as)) [0..<length as])"
    by (simp add: array_map_def)
  then show ?thesis
    using d assms(1) by (simp add: NewsletterEmail_ok default_param_def)
qed

text \<open>
  C3, as stated, fails: a horizontal rule does come after the last article block. The
  divider inside a block is left out of the last block, but the rule that closes the
  articles section is built for every list; with one article it is the element right after
  that article's button.
\<close>

theorem rule_after_last_block_counterexample:
  "NewsletterEmail (JObj [(''articles'', JArr [JObj [(''title'', JStr ''A''), (''url'', JStr ''/a'')]])])
     = Inr (NewsletterEmail_tree (JStr ''Weekly Newsletter'')
              [article_block (JObj [(''title'', JStr ''A''), (''url'', JStr ''/a'')]) False]
              (JStr ''Unipack'') (JStr ''#''))
   \<and> sublist [(Button, ''articleButton''), (Hr, ''hr'')]
        (outline (NewsletterEmail_tree (JStr ''Weekly Newsletter'')
              [article_block (JObj [(''title'', JStr ''A''), (''url'', JStr ''/a'')]) False]
              (JStr ''Unipack'') (JStr ''#'')))"
proof -
  let ?a = "JObj [(''title'', JStr ''A''), (''url'', JStr ''/a'')]"
  have "list_all article_record [?a]"
    by (simp add: article_record_def string_or_absent_def)
  then have "NewsletterEmail (JObj [(''articles'', JArr [?a])])
     = Inr (NewsletterEmail_tree (JStr ''Weekly Newsletter'') [article_block ?a False]
              (JStr ''Unipack'') (JStr ''#''))"
    using NewsletterEmail_records [of "JObj [(''articles'', JArr [?a])]" "[?a]"]
    by (simp add: default_param_def)
  moreover have "outline (article_block ?a False) =
      [(Section, ''articleSection''), (Text, ''articleTitle''), (Link, ''articleLink''),
       (Text, ''articleExcerpt'')]
      @ [(Section, ''articleButtonContainer''), (Button, ''articleButton'')]"
    by (simp add: article_block_def)
  then have "sublist [(Button, ''articleButton''), (Hr, ''hr'')]
        (outline (NewsletterEmail_tree (JStr ''Weekly Newsletter'') [article_block ?a False]
              (JStr ''Unipack'') (JStr ''#'')))"
    unfolding outline_newsletter sublist_def
    by (intro exI [of _ "[(Html, []), (Head, []), (Preview, []), (Body, ''main''),
          (Container, ''container''), (Section, ''header''), (Text, ''logo''),
          (Text, ''headerSubtitle''), (Section, ''content''), (Text, ''greeting''),
          (Text, ''text''), (Section, ''content''), (Text, ''sectionHeading''),
          (Section, ''articleSection''), (Text, ''articleTitle''), (Link, ''articleLink''),
          (Text, ''articleExcerpt''), (Section, ''articleButtonContainer'')]"]
          exI [of _ "[(Section, ''content''), (Text, ''ctaText''), (Section, ''socialSection''),
          (Button, ''socialButton''), (Button, ''socialButton''), (Button, ''socialButton''),
          (Section, ''footer''), (Text, ''footerText''), (Text, ''footerText''),
          (Text, ''footerText''), (Link, ''unsubscribeLink''), (Link, ''unsubscribeLink'')]"])
       simp
  ultimately show ?thesis by simp
qed

text \<open>
  C3, amended: rendering the newsletter with a Data Bag whose \<open>articles\<close> is a list of \<open>N\<close>
  records builds a tree with exactly \<open>N\<close> article blocks, in the order of the list; the
  \<open>i\<close>-th block holds the \<open>i\<close>-th article's title linked to its url, its excerpt and the
  button to its url; a block has the article divider, as its last child, exactly when it is
  not the last block; and a block has the read-time text node exactly when the article's
  \<open>readTime\<close> is neither absent nor empty. The blocks follow the heading of the articles
  section, and the rule that closes that section comes right after the last block, for
  every list.
\<close>

theorem newsletter_article_blocks:
  assumes "get_prop data ''articles'' = JArr as" and "list_all article_record as"
  shows "\<exists>tree.
       NewsletterEmail data = Inr tree
     \<and> find_styled ''articleSection'' tree
         = map (\<lambda>i. article_block (as ! i) (i + 1 < length as)) [0..<length as]
     \<and> outline tree =
         [(Html, []), (Head, []), (Preview, []), (Body, ''main''), (Container, ''container''),
          (Section, ''header''), (Text, ''logo''), (Text, ''headerSubtitle''),
          (Section, ''content''), (Text, ''greeting''), (Text, ''text''),
          (Section, ''content''), (Text, ''sectionHeading'')]
         @ concat (map outline (find_styled ''articleSection'' tree))
         @ [(Hr, ''hr''), (Section, ''content''), (Text, ''ctaText''),
            (Section, ''socialSection''), (Button, ''socialButton''),
            (Button, ''socialButton''), (Button, ''socialButton''), (Section, ''footer''),
            (Text, ''footerText''), (Text, ''footerText''), (Text, ''footerText''),
            (Link, ''unsubscribeLink''), (Link, ''unsubscribeLink'')]
     \<and> (\<forall>i < length as.
          (has_child ''articleHr'' (find_styled ''articleSection'' tree ! i)
             \<longleftrightarrow> i + 1 < length as)
        \<and> (i + 1 < length as \<longrightarrow>
             last (children (find_styled ''articleSection'' tree ! i)) = El Hr ''articleHr'' [])
        \<and> (has_child ''readTime'' (find_styled ''articleSection'' tree ! i)
             \<longleftrightarrow> get_prop (as ! i) ''readTime'' \<notin> {JUndefined, JStr []})
        \<and> ([Value (get_prop (as ! i) ''title'')], get_prop (as ! i) ''url'')
             \<in> set (hyperlinks (find_styled ''articleSection'' tree ! i))
        \<and> ([Lit ''Read More''], get_prop (as ! i) ''url'')
             \<in> set (hyperlinks (find_styled ''articleSection'' tree ! i))
        \<and> get_prop (as ! i) ''excerpt''
             \<in> set (text_values (find_styled ''articleSection'' tree ! i)))"
proof -
  let ?blocks = "map (\<lambda>i. article_block (as ! i) (i + 1 < length as)) [0..<length as]"
  let ?tree = "NewsletterEmail_tree
              (default_param (get_prop data ''title'') (JStr ''Weekly Newsletter''))
              ?blocks
              (default_param (get_prop data ''companyName'') (JStr ''Unipack''))
              (default_param (get_prop data ''unsubscribeUrl'') (JStr ''#''))"
  have tree: "NewsletterEmail data = Inr ?tree"
    using assms by (rule NewsletterEmail_records)
  have "find_styled ''articleSection'' b = [b]" if mem: "b \<in> set ?blocks" for b
    using mem article_block_observed(1) by auto
  then have found: "find_styled ''articleSection'' ?tree = ?blocks"
    unfolding find_articles_in_newsletter by (rule concat_map_singletons)
  have order: "outline ?tree =
         [(Html, []), (Head, []), (Preview, []), (Body, ''main''), (Container, ''container''),
          (Section, ''header''), (Text, ''logo''), (Text, ''headerSubtitle''),
          (Section, ''content''), (Text, ''greeting''), (Text, ''text''),
          (Section, ''content''), (Text, ''sectionHeading'')]
         @ concat (map outline (find_styled ''articleSection'' ?tree))
         @ [(Hr, ''hr''), (Section, ''content''), (Text, ''ctaText''),
            (Section, ''socialSection''), (Button, ''socialButton''),
            (Button, ''socialButton''), (Button, ''socialButton''), (Section, ''footer''),
            (Text, ''footerText''), (Text, ''footerText''), (Text, ''footerText''),
            (Link, ''unsubscribeLink''), (Link, ''unsubscribeLink'')]"
    unfolding found by (rule outline_newsletter)
  have each: "(has_child ''articleHr'' (?blocks ! i) \<longleftrightarrow> i + 1 < length as)
        \<and> (i + 1 < length as \<longrightarrow> last (children (?blocks ! i)) = El Hr ''articleHr'' [])
        \<and> (has_child ''readTime'' (?blocks ! i)
             \<longleftrightarrow> get_prop (as ! i) ''readTime'' \<notin> {JUndefined, JStr []})
        \<and> ([Value (get_prop (as ! i) ''title'')], get_prop (as ! i) ''url'')
             \<in> set (hyperlinks (?blocks ! i))
        \<and> ([Lit ''Read More''], get_prop (as ! i) ''url'') \<in> set (hyperlinks (?blocks ! i))
        \<and> get_prop (as ! i) ''excerpt'' \<in> set (text_values (?blocks ! i))"
    if i: "i < length as" for i
    using i article_block_observed(2,3,4) [where a = "as ! i" and divided = "i + 1 < length as"]
      article_block_content [where a = "as ! i" and divided = "i + 1 < length as"]
    by simp
  show ?thesis
    using tree found order each by (intro exI [of _ ?tree]) simp
qed

theorem newsletter_article_blocks_witness:
  "\<exists>tree. NewsletterEmail (JObj [(''articles'',
        JArr [JObj [(''title'', JStr ''A''), (''readTime'', JStr ''1 min'')],
              JObj [(''title'', JStr ''B'')]])]) = Inr tree
     \<and> find_styled ''articleSection'' tree
         = [article_block (JObj [(''title'', JStr ''A''), (''readTime'', JStr ''1 min'')]) True,
            article_block (JObj [(''title'', JStr ''B'')]) False]
     \<and> has_child ''articleHr'' (find_styled ''articleSection'' tree ! 0)
     \<and> \<not> has_child ''articleHr'' (find_styled ''articleSection'' tree ! 1)
     \<and> has_child ''readTime'' (find_styled ''articleSection'' tree ! 0)
     \<and> \<not> has_child ''readTime'' (find_styled ''articleSection'' tree ! 1)"
proof -
  let ?a0 = "JObj [(''title'', JStr ''A''), (''readTime'', JStr ''1 min'')]"
  let ?a1 = "JObj [(''title'', JStr ''B'')]"
  have up: "[0..<length [?a0, ?a1]] = [0, 1]"
    by (simp add: upt_rec)
  have "list_all article_record [?a0, ?a1]"
    by (simp add: article_record_def string_or_absent_def)
  then obtain tree where t: "NewsletterEmail (JObj [(''articles'', JArr [?a0, ?a1])]) = Inr tree"
    and f: "find_styled ''articleSection'' tree
         = map (\<lambda>i. article_block ([?a0, ?a1] ! i) (i + 1 < length [?a0, ?a1]))
             [0..<length [?a0, ?a1]]"
    using newsletter_article_blocks [of "JObj [(''articles'', JArr [?a0, ?a1])]" "[?a0, ?a1]"]
    by auto
  have "find_styled ''articleSection'' tree = [article_block ?a0 True, article_block ?a1 False]"
    unfolding f up by simp
  then show ?thesis
    using t by (simp add: article_block_observed)
qed

section \<open>The text is a projection of the HTML\<close>











section \<open>Rendering does not read the clock\<close>








section \<open>A data field that is not a map\<close>




section \<open>Names that are not templates\<close>

text \<open>
  C7, at the failing input \<open>POST /render/constructor\<close>: \<open>constructor\<close> is not a registered
  template, yet \<open>templates['constructor']\<close> is truthy, so neither server answers 404,
  whatever the body is.
\<close>

theorem constructor_is_never_rejected:
  "''constructor'' \<notin> set template_names
   \<and> status (fetch fo now
        \<lparr>http_method = ''POST'', pathname = ''/render/constructor'', body = b\<rparr>) \<noteq> 404
   \<and> status (listener fo now
        \<lparr>http_method = ''POST'', pathname = ''/render/constructor'', body = b\<rparr>) \<noteq> 404"
proof (cases b)
  case None
  then show ?thesis
    by (simp add: fetch_def fetch_try_def listener_def listener_try_def path_param_render_names
          templates_inherited bun_json_def node_json_def template_names_def)
next
  case (Some v)
  then show ?thesis
    by (cases "render_body fo ''constructor'' v")
       (simp_all add: fetch_def fetch_try_def listener_def listener_try_def
          path_param_render_names templates_inherited bun_json_def node_json_def
          template_names_def)
qed

text \<open>
  C10, at the failing input \<open>POST /render/toString\<close> with a body that is not JSON:
  \<open>toString\<close> is not a registered template, and both servers answer with the 400
  envelope of an invalid body.
\<close>

theorem toString_unparseable_body_is_400:
  "''toString'' \<notin> set template_names
   \<and> fetch fo now \<lparr>http_method = ''POST'', pathname = ''/render/toString'', body = None\<rparr>
       = bun_json 400 invalid_json
   \<and> listener fo now \<lparr>http_method = ''POST'', pathname = ''/render/toString'', body = None\<rparr>
       = node_json 400 invalid_json"
  by (simp add: fetch_def fetch_try_def listener_def listener_try_def path_param_render_names
        templates_inherited template_names_def)

section \<open>Defaults of the welcome template\<close>

text \<open>
  C9: rendering the welcome template in html mode with the empty Data Bag gives an output
  that contains the default username \<open>User\<close> and the default company name \<open>Unipack\<close>.
\<close>

theorem welcome_defaults_in_html:
  "\<exists>h. renderEmailTemplate fo ''welcome'' (JObj []) (JStr ''html'') = Inr [(''html'', JStr h)]
       \<and> sublist ''User'' h \<and> sublist ''Unipack'' h"
proof -
  let ?W = "WelcomeEmail_tree (JStr ''User'') (JStr ''#'') (JStr ''Unipack'')"
  have b: "build fo Welcome (JObj []) = Inr ?W"
    by (simp add: build_def WelcomeEmail_ok nullish_def default_param_def)
  have h: "renderEmailTemplate fo ''welcome'' (JObj []) (JStr ''html'')
             = Inr [(''html'', JStr (serialize_html (styles Welcome) ?W))]"
    using renderEmailTemplate_ok [OF _ templates_registered(1) b] by simp
  have "JStr ''User'' \<in> set (text_values ?W)" and "JStr ''Unipack'' \<in> set (text_values ?W)"
    by (simp_all add: WelcomeEmail_tree_def textless_def hyperlink_def)
  then have "sublist ''User'' (serialize_html (styles Welcome) ?W)"
    and "sublist ''Unipack'' (serialize_html (styles Welcome) ?W)"
    using value_in_html [of "JStr ''User''" ?W] value_in_html [of "JStr ''Unipack''" ?W]
    by simp_all
  then show ?thesis using h by simp
qed

section \<open>The password-reset scenario\<close>













end
